theory Spec2Isabelle
  imports Complex_Main
begin

section \<open>Data model of the task store (src/app/store/useTaskStore.ts)\<close>

text \<open>
  JavaScript \<^verbatim>\<open>Date\<close> values are modelled by their epoch time in milliseconds,
  \<^verbatim>\<open>number\<close> by \<open>real\<close> where fractions occur (seconds, distortion levels) and by
  \<open>int\<close> for the integer counters. Every \<^verbatim>\<open>new Date()\<close>, \<^verbatim>\<open>uuidv4()\<close> and
  \<^verbatim>\<open>Math.random()\<close> of the source is a parameter of the operation that reads it.
\<close>

type_synonym Date = int

datatype TaskStatus = Pending | InProgress | Completed | RunningAway

datatype FocusState = Idle | Focus | Break | Distorted

record Task =
  id_task :: string
  title :: string
  description :: string
  status :: TaskStatus
  createdAt :: Date
  deadline :: "Date option"
  completedAt :: "Date option"
  lastWorkedOn :: "Date option"
  timeSpent :: real
  importance :: int
  procrastinationLevel :: int
  position :: "real \<times> real \<times> real"

record FocusSession =
  id_session :: string
  taskId :: string
  startTime :: Date
  endTime :: "Date option"
  duration :: real
  distortionLevel :: real

record Achievement =
  id_ach :: string
  title_ach :: string
  description_ach :: string
  unlockedAt :: "Date option"
  isUnlocked :: bool

record ProductivityStats =
  totalTasksCompleted :: int
  totalTimeSpent :: real
  longestStreak :: int
  currentStreak :: int
  lastActiveDay :: "Date option"
  achievements_stats :: "Achievement list"

record TaskStore =
  tasks :: "Task list"
  focusSessions :: "FocusSession list"
  currentFocusState :: FocusState
  currentSession :: "FocusSession option"
  productivityStats :: ProductivityStats
  achievements :: "Achievement list"

text \<open>
  \<^verbatim>\<open>Partial<Task>\<close>: a field is \<open>None\<close> when the key is absent from the patch and
  \<open>Some v\<close> when it is present; for the optional fields of \<^verbatim>\<open>Task\<close> a present key may
  carry \<^verbatim>\<open>undefined\<close>, which is \<open>Some None\<close>.
\<close>

record TaskPatch =
  p_id :: "string option"
  p_title :: "string option"
  p_description :: "string option"
  p_status :: "TaskStatus option"
  p_createdAt :: "Date option"
  p_deadline :: "Date option option"
  p_completedAt :: "Date option option"
  p_lastWorkedOn :: "Date option option"
  p_timeSpent :: "real option"
  p_importance :: "int option"
  p_procrastinationLevel :: "int option"
  p_position :: "(real \<times> real \<times> real) option"

text \<open>The argument of \<^verbatim>\<open>addTask\<close>: a \<^verbatim>\<open>Task\<close> without the six omitted keys.\<close>

record TaskData =
  d_title :: string
  d_description :: string
  d_importance :: int
  d_deadline :: "Date option"
  d_completedAt :: "Date option"
  d_lastWorkedOn :: "Date option"

definition emptyPatch :: TaskPatch where
  "emptyPatch = \<lparr> p_id = None, p_title = None, p_description = None, p_status = None,
     p_createdAt = None, p_deadline = None, p_completedAt = None, p_lastWorkedOn = None,
     p_timeSpent = None, p_importance = None, p_procrastinationLevel = None,
     p_position = None \<rparr>"

text \<open>The object spread \<^verbatim>\<open>{ ...task, ...taskUpdate }\<close>.\<close>

definition override :: "'a \<Rightarrow> 'a option \<Rightarrow> 'a" where
  "override old new = (case new of None \<Rightarrow> old | Some v \<Rightarrow> v)"

definition spread :: "Task \<Rightarrow> TaskPatch \<Rightarrow> Task" where
  "spread task taskUpdate =
     \<lparr> id_task = override (id_task task) (p_id taskUpdate),
       title = override (title task) (p_title taskUpdate),
       description = override (description task) (p_description taskUpdate),
       status = override (status task) (p_status taskUpdate),
       createdAt = override (createdAt task) (p_createdAt taskUpdate),
       deadline = override (deadline task) (p_deadline taskUpdate),
       completedAt = override (completedAt task) (p_completedAt taskUpdate),
       lastWorkedOn = override (lastWorkedOn task) (p_lastWorkedOn taskUpdate),
       timeSpent = override (timeSpent task) (p_timeSpent taskUpdate),
       importance = override (importance task) (p_importance taskUpdate),
       procrastinationLevel =
         override (procrastinationLevel task) (p_procrastinationLevel taskUpdate),
       position = override (position task) (p_position taskUpdate) \<rparr>"

definition PREDEFINED_ACHIEVEMENTS :: "Achievement list" where
  "PREDEFINED_ACHIEVEMENTS =
     [ \<lparr> id_ach = ''first-task'', title_ach = ''Baby Steps'',
         description_ach = ''Created your first task. Congratulations on the bare minimum!'',
         unlockedAt = None, isUnlocked = False \<rparr>,
       \<lparr> id_ach = ''five-tasks-completed'', title_ach = ''Productivity Padawan'',
         description_ach = ''Completed 5 tasks. The force of productivity is starting to flow through you.'',
         unlockedAt = None, isUnlocked = False \<rparr>,
       \<lparr> id_ach = ''procrastination-master'', title_ach = ''Procrastination Grand Master'',
         description_ach = ''Successfully avoided a task for so long it achieved sentience and ran away.'',
         unlockedAt = None, isUnlocked = False \<rparr>,
       \<lparr> id_ach = ''time-bender'', title_ach = ''Time Lord'',
         description_ach = ''Spent over 4 hours in the time distortion zone without going insane.'',
         unlockedAt = None, isUnlocked = False \<rparr>,
       \<lparr> id_ach = ''deadline-warrior'', title_ach = ''Deadline Warrior'',
         description_ach = ''Completed 3 tasks within 10 minutes of their deadlines. We call this efficient.'',
         unlockedAt = None, isUnlocked = False \<rparr> ]"

text \<open>
  The initial state of the store. (The last description is written without the double
  quotes around its last word.)
\<close>

definition initialStore :: TaskStore where
  "initialStore =
     \<lparr> tasks = [], focusSessions = [], currentFocusState = Idle, currentSession = None,
       productivityStats =
         \<lparr> totalTasksCompleted = 0, totalTimeSpent = 0, longestStreak = 0,
           currentStreak = 0, lastActiveDay = None, achievements_stats = [] \<rparr>,
       achievements = PREDEFINED_ACHIEVEMENTS \<rparr>"

section \<open>Operations of the store\<close>

text \<open>
  Each operation takes the state and returns the new one. A \<^verbatim>\<open>set\<close> with a partial
  state overwrites the named fields and keeps the others.
\<close>

definition updateAchievement :: "Date \<Rightarrow> string \<Rightarrow> TaskStore \<Rightarrow> TaskStore" where
  "updateAchievement now achievementId state =
     state\<lparr> achievements :=
       map (\<lambda>achievement.
              if id_ach achievement = achievementId
              then achievement\<lparr> isUnlocked := True, unlockedAt := Some now \<rparr>
              else achievement)
           (achievements state) \<rparr>"

text \<open>
  \<^verbatim>\<open>addTask\<close>: \<open>newId\<close> is the uuid, \<open>now\<close> the creation time, \<open>pos\<close> the random
  position, \<open>achNow\<close> the time read by \<^verbatim>\<open>updateAchievement\<close>. The spread of
  \<^verbatim>\<open>taskData\<close> comes last and sets its own keys.
\<close>

definition addTask ::
  "string \<Rightarrow> Date \<Rightarrow> real \<times> real \<times> real \<Rightarrow> Date \<Rightarrow> TaskData \<Rightarrow> TaskStore \<Rightarrow> TaskStore" where
  "addTask newId now pos achNow taskData state =
     (let newTask =
            \<lparr> id_task = newId, title = d_title taskData,
              description = d_description taskData, status = Pending, createdAt = now,
              deadline = d_deadline taskData, completedAt = d_completedAt taskData,
              lastWorkedOn = d_lastWorkedOn taskData, timeSpent = 0,
              importance = d_importance taskData, procrastinationLevel = 0,
              position = pos \<rparr>;
          state1 = state\<lparr> tasks := tasks state @ [newTask] \<rparr>
      in case find (\<lambda>a. id_ach a = ''first-task'') (achievements state1) of
           None \<Rightarrow> state1
         | Some firstTaskAchievement \<Rightarrow>
             if \<not> isUnlocked firstTaskAchievement
             then updateAchievement achNow ''first-task'' state1
             else state1)"

definition updateTask :: "string \<Rightarrow> TaskPatch \<Rightarrow> TaskStore \<Rightarrow> TaskStore" where
  "updateTask i taskUpdate state =
     state\<lparr> tasks :=
       map (\<lambda>task. if id_task task = i then spread task taskUpdate else task)
           (tasks state) \<rparr>"

definition deleteTask :: "string \<Rightarrow> TaskStore \<Rightarrow> TaskStore" where
  "deleteTask i state =
     state\<lparr> tasks := filter (\<lambda>task. id_task task \<noteq> i) (tasks state) \<rparr>"

text \<open>
  \<^verbatim>\<open>completeTask\<close>: the achievement is unlocked by a nested \<^verbatim>\<open>set\<close> while the outer
  update is computed; the outer update then overwrites \<^verbatim>\<open>tasks\<close> and
  \<^verbatim>\<open>productivityStats\<close> only, so the unlocked achievement stays.
\<close>

definition completeTask :: "Date \<Rightarrow> Date \<Rightarrow> string \<Rightarrow> TaskStore \<Rightarrow> TaskStore" where
  "completeTask completedAtNow achNow i state =
     (let updatedTasks =
            map (\<lambda>task. if id_task task = i
                         then task\<lparr> status := Completed, completedAt := Some completedAtNow \<rparr>
                         else task)
                (tasks state);
          completedCount = length (filter (\<lambda>t. status t = Completed) updatedTasks);
          state1 =
            (if completedCount \<ge> 5
             then (case find (\<lambda>a. id_ach a = ''five-tasks-completed'') (achievements state) of
                     None \<Rightarrow> state
                   | Some achievement \<Rightarrow>
                       if \<not> isUnlocked achievement
                       then updateAchievement achNow ''five-tasks-completed'' state
                       else state)
             else state)
      in state1\<lparr> tasks := updatedTasks,
                 productivityStats :=
                   (productivityStats state)\<lparr> totalTasksCompleted :=
                     totalTasksCompleted (productivityStats state) + 1 \<rparr> \<rparr>)"

definition makeTaskRunAway :: "Date \<Rightarrow> string \<Rightarrow> TaskStore \<Rightarrow> TaskStore" where
  "makeTaskRunAway achNow i state =
     updateAchievement achNow ''procrastination-master''
       (state\<lparr> tasks :=
          map (\<lambda>task. if id_task task = i then task\<lparr> status := RunningAway \<rparr> else task)
              (tasks state) \<rparr>)"

definition startFocusSession :: "string \<Rightarrow> Date \<Rightarrow> string \<Rightarrow> TaskStore \<Rightarrow> TaskStore" where
  "startFocusSession newId now tid state =
     (let newSession =
            \<lparr> id_session = newId, taskId = tid, startTime = now, endTime = None,
              duration = 0, distortionLevel = 0 \<rparr>
      in state\<lparr> currentSession := Some newSession, currentFocusState := Focus \<rparr>)"

definition endFocusSession :: "Date \<Rightarrow> Date \<Rightarrow> TaskStore \<Rightarrow> TaskStore" where
  "endFocusSession endTimeNow achNow state0 =
     (case currentSession state0 of
        None \<Rightarrow> state0
      | Some cs \<Rightarrow>
         (let dur = real_of_int (endTimeNow - startTime cs) / 1000;
              completedSession = cs\<lparr> endTime := Some endTimeNow, duration := dur \<rparr>;
              state1 =
                (case find (\<lambda>t. id_task t = taskId cs) (tasks state0) of
                   None \<Rightarrow> state0
                 | Some task \<Rightarrow>
                     updateTask (id_task task)
                       (emptyPatch\<lparr> p_timeSpent := Some (timeSpent task + dur),
                                    p_lastWorkedOn := Some (Some endTimeNow) \<rparr>)
                       state0);
              state2 =
                state1\<lparr> focusSessions := focusSessions state1 @ [completedSession],
                        currentSession := None,
                        currentFocusState := Idle,
                        productivityStats :=
                          (productivityStats state1)\<lparr> totalTimeSpent :=
                            totalTimeSpent (productivityStats state1) + dur \<rparr> \<rparr>
          in if distortionLevel cs > 75 \<and> dur > 14400
             then updateAchievement achNow ''time-bender'' state2
             else state2))"

definition setDistortionLevel :: "real \<Rightarrow> TaskStore \<Rightarrow> TaskStore" where
  "setDistortionLevel level state =
     (case currentSession state of
        None \<Rightarrow> state
      | Some cs \<Rightarrow>
          state\<lparr> currentSession := Some (cs\<lparr> distortionLevel := level \<rparr>),
                 currentFocusState := (if level > 50 then Distorted else Focus) \<rparr>)"

definition setFocusState :: "FocusState \<Rightarrow> TaskStore \<Rightarrow> TaskStore" where
  "setFocusState st state = state\<lparr> currentFocusState := st \<rparr>"

text \<open>
  \<^verbatim>\<open>handleProcrastinate\<close> of src/app/components/TaskManager.tsx, the operation the
  specification calls \<^verbatim>\<open>procrastinate\<close>; \<^verbatim>\<open>tasks\<close> is the task list of the store.
\<close>

definition handleProcrastinate :: "Date \<Rightarrow> string \<Rightarrow> TaskStore \<Rightarrow> TaskStore" where
  "handleProcrastinate achNow tid state =
     (case find (\<lambda>t. id_task t = tid) (tasks state) of
        None \<Rightarrow> state
      | Some task \<Rightarrow>
          (let newProcrastinationLevel = min 100 (procrastinationLevel task + 20)
           in if newProcrastinationLevel \<ge> 100
              then makeTaskRunAway achNow tid state
              else updateTask tid
                     (emptyPatch\<lparr> p_procrastinationLevel := Some newProcrastinationLevel \<rparr>)
                     state))"




text \<open>
  The operations as data, to state properties of every operation and of every run.
\<close>

datatype StoreOp =
    AddTask string Date "real \<times> real \<times> real" Date TaskData
  | UpdateTask string TaskPatch
  | DeleteTask string
  | CompleteTask Date Date string
  | MakeTaskRunAway Date string
  | Procrastinate Date string
  | StartFocusSession string Date string
  | EndFocusSession Date Date
  | SetDistortionLevel real
  | SetFocusState FocusState
  | UpdateAchievement Date string

fun applyOp :: "StoreOp \<Rightarrow> TaskStore \<Rightarrow> TaskStore" where
  "applyOp (AddTask newId now pos achNow taskData) state =
     addTask newId now pos achNow taskData state"
| "applyOp (UpdateTask i taskUpdate) state = updateTask i taskUpdate state"
| "applyOp (DeleteTask i) state = deleteTask i state"
| "applyOp (CompleteTask completedAtNow achNow i) state =
     completeTask completedAtNow achNow i state"
| "applyOp (MakeTaskRunAway achNow i) state = makeTaskRunAway achNow i state"
| "applyOp (Procrastinate achNow i) state = handleProcrastinate achNow i state"
| "applyOp (StartFocusSession newId now tid) state = startFocusSession newId now tid state"
| "applyOp (EndFocusSession endTimeNow achNow) state = endFocusSession endTimeNow achNow state"
| "applyOp (SetDistortionLevel level) state = setDistortionLevel level state"
| "applyOp (SetFocusState st) state = setFocusState st state"
| "applyOp (UpdateAchievement now achievementId) state =
     updateAchievement now achievementId state"

fun run :: "StoreOp list \<Rightarrow> TaskStore \<Rightarrow> TaskStore" where
  "run [] state = state"
| "run (op # ops) state = run ops (applyOp op state)"

text \<open>Lookups used to state the properties.\<close>

definition taskById :: "string \<Rightarrow> TaskStore \<Rightarrow> Task option" where
  "taskById i state = find (\<lambda>t. id_task t = i) (tasks state)"

definition achievementById :: "string \<Rightarrow> TaskStore \<Rightarrow> Achievement option" where
  "achievementById a state = find (\<lambda>x. id_ach x = a) (achievements state)"

definition terminal :: "TaskStatus \<Rightarrow> bool" where
  "terminal st = (st = Completed \<or> st = RunningAway)"

text \<open>Every task of the store that carries the id \<open>i\<close> is completed or running away.\<close>

definition terminalAt :: "string \<Rightarrow> TaskStore \<Rightarrow> bool" where
  "terminalAt i state = list_all (\<lambda>t. id_task t = i \<longrightarrow> terminal (status t)) (tasks state)"

text \<open>
  The operations that do not write a status or an id from their argument: every
  operation but \<^verbatim>\<open>updateTask\<close> with a patch that has the key \<^verbatim>\<open>status\<close> or \<^verbatim>\<open>id\<close>,
  and \<^verbatim>\<open>addTask\<close> creating the id \<open>i\<close> itself.
\<close>

fun keepsStatus :: "string \<Rightarrow> StoreOp \<Rightarrow> bool" where
  "keepsStatus i (UpdateTask j taskUpdate) = (p_status taskUpdate = None \<and> p_id taskUpdate = None)"
| "keepsStatus i (AddTask newId now pos achNow taskData) = (newId \<noteq> i)"
| "keepsStatus i _ = True"

section \<open>The focus timer (FocusTimer component)\<close>

datatype TimerState = IDLE | RUNNING | PAUSED | COMPLETED | DISTORTED

text \<open>
  The state of the component: its four state variables and the \<^verbatim>\<open>lastTickTime\<close> ref
  (milliseconds, \<open>None\<close> for \<^verbatim>\<open>null\<close>).
\<close>

record FocusTimer =
  timeRemaining :: real
  initialTime :: real
  timerState :: TimerState
  distortionLevel_timer :: real
  lastTickTime :: "int option"

text \<open>The multiplier computed by the interval callback before it updates the time.\<close>

definition timeMultiplier :: "TimerState \<Rightarrow> real \<Rightarrow> real" where
  "timeMultiplier ts d =
     (if ts = DISTORTED
      then (if d < 30 then 0.5 + d / 60
            else if d < 60 then 1 + (d - 30) / 30
            else if d < 80 then 2 + (d - 60) / 20
            else if d < 95 then 3 + (d - 80) / 7.5
            else - 1)
      else 1)"

text \<open>
  One run of the interval callback at time \<open>now\<close>. The interval exists only while the
  timer is running or distorted. The result says whether the completion branch ran
  (\<^verbatim>\<open>setTimerState(COMPLETED)\<close>, \<^verbatim>\<open>onComplete\<close>, \<^verbatim>\<open>endFocusSession\<close>).
\<close>

definition tickTimer :: "int \<Rightarrow> FocusTimer \<Rightarrow> FocusTimer \<times> bool" where
  "tickTimer now t =
     (if timerState t = RUNNING \<or> timerState t = DISTORTED
      then (case lastTickTime t of
              None \<Rightarrow> (t\<lparr> lastTickTime := Some now \<rparr>, False)
            | Some lastTick \<Rightarrow>
                (let elapsed = real_of_int (now - lastTick) / 1000;
                     m = timeMultiplier (timerState t) (distortionLevel_timer t);
                     prev = timeRemaining t;
                     newValue = max 0 (prev - elapsed * m)
                 in if newValue \<le> 0 \<and> prev > 0
                    then (t\<lparr> lastTickTime := Some now, timeRemaining := newValue,
                             timerState := COMPLETED \<rparr>, True)
                    else (t\<lparr> lastTickTime := Some now, timeRemaining := newValue \<rparr>, False)))
      else (t, False))"

text \<open>The callback on the timer and the store together.\<close>

definition tick :: "int \<Rightarrow> Date \<Rightarrow> Date \<Rightarrow> FocusTimer \<times> TaskStore \<Rightarrow> FocusTimer \<times> TaskStore" where
  "tick now endTimeNow achNow ts =
     (case tickTimer now (fst ts) of
        (t', done) \<Rightarrow> (t', if done then endFocusSession endTimeNow achNow (snd ts) else snd ts))"

text \<open>The initial state of the component: 25 minutes, idle.\<close>

definition initialTimer :: FocusTimer where
  "initialTimer =
     \<lparr> timeRemaining = 25 * 60, initialTime = 25 * 60, timerState = IDLE,
       distortionLevel_timer = 0, lastTickTime = None \<rparr>"

text \<open>The timer half of \<^verbatim>\<open>startTimer\<close>, \<^verbatim>\<open>toggleTimeDistortion\<close> and \<^verbatim>\<open>increaseDistortion\<close>.\<close>

definition startTimer :: "int \<Rightarrow> FocusTimer \<Rightarrow> FocusTimer" where
  "startTimer now t = t\<lparr> timerState := RUNNING, lastTickTime := Some now \<rparr>"

definition toggleTimeDistortion :: "FocusTimer \<Rightarrow> FocusTimer" where
  "toggleTimeDistortion t =
     (if timerState t = RUNNING then t\<lparr> timerState := DISTORTED \<rparr>
      else if timerState t = DISTORTED then t\<lparr> timerState := RUNNING \<rparr>
      else t)"

definition increaseDistortion :: "FocusTimer \<Rightarrow> FocusTimer" where
  "increaseDistortion t =
     (if timerState t = DISTORTED
      then t\<lparr> distortionLevel_timer := min 100 (distortionLevel_timer t + 10) \<rparr>
      else t)"

section \<open>The specification's formulas, for comparison with the code\<close>

text \<open>
  The multiplier curve as the specification's table gives it, on \<open>[0, 100]\<close> only.
\<close>

definition spec_m :: "real \<Rightarrow> real option" where
  "spec_m d =
     (if 0 \<le> d \<and> d < 30 then Some (0.5 + d / 60)
      else if 30 \<le> d \<and> d < 60 then Some (1 + (d - 30) / 30)
      else if 60 \<le> d \<and> d < 80 then Some (2 + (d - 60) / 20)
      else if 80 \<le> d \<and> d < 95 then Some (3 + (d - 80) / 7.5)
      else if 95 \<le> d \<and> d \<le> 100 then Some (- 1)
      else None)"

text \<open>
  The streak rule as the specification words it: \<open>lastActive\<close> is the most recent prior
  activity, days are counted from the epoch.
\<close>

definition dayOf :: "Date \<Rightarrow> int" where
  "dayOf d = d div 86400000"

definition spec_currentStreak :: "Date option \<Rightarrow> Date \<Rightarrow> int \<Rightarrow> int" where
  "spec_currentStreak lastActive today cs =
     (case lastActive of
        None \<Rightarrow> 1
      | Some l \<Rightarrow>
          if dayOf today - dayOf l = 1 then cs + 1
          else if dayOf today = dayOf l then cs
          else 1)"

section \<open>Example states and auxiliary notions\<close>

text \<open>A store with one fresh task, and one with two.\<close>

definition oneTask :: TaskStore where
  "oneTask = addTask ''t1'' 0 (0, 0, 0) 0
     \<lparr> d_title = ''write'', d_description = ''report'', d_importance = 3,
       d_deadline = None, d_completedAt = None, d_lastWorkedOn = None \<rparr> initialStore"

definition twoTasks :: TaskStore where
  "twoTasks = addTask ''t2'' 10 (1, 1, 1) 10
     \<lparr> d_title = ''read'', d_description = ''paper'', d_importance = 2,
       d_deadline = None, d_completedAt = None, d_lastWorkedOn = None \<rparr> oneTask"

text \<open>The task completed; a session open on it; the task procrastinated five times.\<close>

definition doneTask :: TaskStore where
  "doneTask = completeTask 1000 1000 ''t1'' oneTask"

definition inSession :: TaskStore where
  "inSession = startFocusSession ''s1'' 0 ''t1'' oneTask"

definition fled :: TaskStore where
  "fled = run [Procrastinate 1 ''t1'', Procrastinate 2 ''t1'', Procrastinate 3 ''t1'',
               Procrastinate 4 ''t1'', Procrastinate 5 ''t1''] oneTask"

text \<open>
  The timer after the start button at time 0, the distortion toggle and ten presses of
  the button that raises the distortion: distorted at level 100.
\<close>

definition reversedTimer :: FocusTimer where
  "reversedTimer = (increaseDistortion ^^ 10) (toggleTimeDistortion (startTimer 0 initialTimer))"

text \<open>The three streak fields of the statistics.\<close>

definition streaks :: "TaskStore \<Rightarrow> int \<times> int \<times> Date option" where
  "streaks state =
     (currentStreak (productivityStats state), longestStreak (productivityStats state),
      lastActiveDay (productivityStats state))"

text \<open>Pointwise: the same ids in the same order, and nothing unlocked became locked.\<close>

definition staysUnlocked :: "Achievement list \<Rightarrow> Achievement list \<Rightarrow> bool" where
  "staysUnlocked before after =
     (map id_ach after = map id_ach before
      \<and> list_all2 (\<lambda>a b. isUnlocked a \<longrightarrow> isUnlocked b) before after)"

text \<open>
  Below 95 the four forward pieces of the multiplier have increasing slopes, so the
  multiplier is the maximum of the four lines there. Used only to prove continuity.
\<close>

definition convexPart :: "real \<Rightarrow> real" where
  "convexPart d =
     max (max (1 / 2 + d / 60) (1 + (d - 30) / 30))
         (max (2 + (d - 60) / 20) (3 + (d - 80) * 2 / 15))"

lemmas example_defs = oneTask_def twoTasks_def addTask_def Let_def initialStore_def
  PREDEFINED_ACHIEVEMENTS_def updateAchievement_def

lemmas op_defs = handleProcrastinate_def makeTaskRunAway_def updateTask_def spread_def
  override_def emptyPatch_def taskById_def achievementById_def

section \<open>The multiplier curve\<close>

subsection \<open>Continuity away from 95\<close>

lemma timeMultiplier_below_95:
  assumes "d < 95"
  shows "timeMultiplier DISTORTED d = convexPart d"
proof -
  define p1 p2 p3 p4 where "p1 = 1 / 2 + d / 60" and "p2 = 1 + (d - 30) / 30"
    and "p3 = 2 + (d - 60) / 20" and "p4 = 3 + (d - 80) * 2 / 15"
  note p = p1_def p2_def p3_def p4_def
  have c: "convexPart d = max (max p1 p2) (max p3 p4)"
    by (simp add: convexPart_def p)
  consider "d < 30" | "30 \<le> d" "d < 60" | "60 \<le> d" "d < 80" | "80 \<le> d"
    by linarith
  then show ?thesis
  proof cases
    case 1
    then have "p2 \<le> p1" "p3 \<le> p1" "p4 \<le> p1" unfolding p by (simp_all add: field_simps)
    then have "max (max p1 p2) (max p3 p4) = p1" by simp
    with 1 show ?thesis by (simp add: c timeMultiplier_def p)
  next
    case 2
    then have "p1 \<le> p2" "p3 \<le> p2" "p4 \<le> p2" unfolding p by (simp_all add: field_simps)
    then have "max (max p1 p2) (max p3 p4) = p2" by simp
    with 2 show ?thesis by (simp add: c timeMultiplier_def p)
  next
    case 3
    then have "p1 \<le> p3" "p2 \<le> p3" "p4 \<le> p3" unfolding p by (simp_all add: field_simps)
    then have "max (max p1 p2) (max p3 p4) = p3" by simp
    with 3 show ?thesis by (simp add: c timeMultiplier_def p)
  next
    case 4
    then have "p1 \<le> p4" "p2 \<le> p4" "p3 \<le> p4" unfolding p by (simp_all add: field_simps)
    then have "max (max p1 p2) (max p3 p4) = p4" by simp
    with 4 assms show ?thesis by (simp add: c timeMultiplier_def p)
  qed
qed

lemma isCont_convexPart: "isCont convexPart d"
  unfolding convexPart_def by (intro continuous_intros) simp_all

lemma isCont_below_95:
  assumes "d < 95"
  shows "isCont (timeMultiplier DISTORTED) d"
proof -
  have "continuous_on {..<95} convexPart"
    by (simp add: continuous_at_imp_continuous_on isCont_convexPart)
  moreover have "continuous_on {..<95} (timeMultiplier DISTORTED) \<longleftrightarrow> continuous_on {..<95} convexPart"
    by (rule continuous_on_cong) (simp_all add: timeMultiplier_below_95)
  ultimately have "continuous_on {..<95} (timeMultiplier DISTORTED)"
    by simp
  then show ?thesis
    using assms by (simp add: continuous_on_eq_continuous_at)
qed

lemma isCont_above_95:
  assumes "95 < d"
  shows "isCont (timeMultiplier DISTORTED) d"
proof -
  have "continuous_on {95<..} (\<lambda>x::real. - 1 :: real)"
    by simp
  moreover have "continuous_on {95<..} (timeMultiplier DISTORTED) \<longleftrightarrow> continuous_on {95<..} (\<lambda>x::real. - 1 :: real)"
    by (rule continuous_on_cong) (simp_all add: timeMultiplier_def)
  ultimately have "continuous_on {95<..} (timeMultiplier DISTORTED)"
    by simp
  then show ?thesis
    using assms by (simp add: continuous_on_eq_continuous_at)
qed

lemma not_isCont_95: "\<not> isCont (timeMultiplier DISTORTED) 95"
proof
  assume c: "isCont (timeMultiplier DISTORTED) 95"
  then have "\<exists>s>0. \<forall>x. x \<noteq> 95 \<and> \<bar>x - 95\<bar> < s \<longrightarrow>
      \<bar>timeMultiplier DISTORTED x - timeMultiplier DISTORTED 95\<bar> < 1"
    unfolding isCont_def LIM_eq real_norm_def by simp
  then obtain s where s: "s > 0" and
    h: "\<And>x. x \<noteq> 95 \<Longrightarrow> \<bar>x - 95\<bar> < s \<Longrightarrow> \<bar>timeMultiplier DISTORTED x - timeMultiplier DISTORTED 95\<bar> < 1"
    by blast
  define x where "x = 95 - min (s / 2) 1"
  have x1: "x \<noteq> 95" and x2: "\<bar>x - 95\<bar> < s" and x3: "80 \<le> x" and x4: "x < 95"
    using s by (simp_all add: x_def min_def)
  have "timeMultiplier DISTORTED 95 = - 1"
    by (simp add: timeMultiplier_def)
  with h [OF x1 x2] have "\<bar>timeMultiplier DISTORTED x + 1\<bar> < 1"
    by simp
  moreover have "timeMultiplier DISTORTED x \<ge> 3"
    using x3 x4 by (simp add: timeMultiplier_def)
  ultimately show False by linarith
qed

lemma spec_m_refines:
  assumes "0 \<le> d" "d \<le> 100"
  shows "spec_m d = Some (timeMultiplier DISTORTED d)"
  using assms by (simp add: spec_m_def timeMultiplier_def)

lemma fst_tick: "fst (tick now endTimeNow achNow (t, s)) = fst (tickTimer now t)"
  by (simp add: tick_def split: prod.splits)

lemma tickTimer_remaining:
  assumes "timerState t = DISTORTED" "lastTickTime t = Some lastTick"
  shows "timeRemaining (fst (tickTimer now t)) =
     max 0 (timeRemaining t
            - real_of_int (now - lastTick) / 1000 * timeMultiplier DISTORTED (distortionLevel_timer t))"
  using assms by (simp add: tickTimer_def Let_def)

text \<open>
  C1, amended. For every distortion level \<open>d\<close> in \<open>[0, 100]\<close>, a tick in the distorted
  state applies the multiplier of the specification's table: \<open>0.5 + d/60\<close> on \<open>[0, 30)\<close>,
  \<open>1 + (d - 30)/30\<close> on \<open>[30, 60)\<close>, \<open>2 + (d - 60)/20\<close> on \<open>[60, 80)\<close>,
  \<open>3 + (d - 80)/7.5\<close> on \<open>[80, 95)\<close> and \<open>-1\<close> on \<open>[95, 100]\<close>; the new remaining
  time is the old one minus the elapsed time times the multiplier, not below 0. The
  multiplier is 0.5 at 0, 1 at 30, 2 at 60, 3 at 80 and \<open>-1\<close> at 95 and at 100. It is
  continuous at every level other than 95, so at the boundaries 30, 60 and 80.
\<close>

theorem timeMultiplier_curve:
  assumes "0 \<le> d" "d \<le> 100"
    and "timerState t = DISTORTED" "distortionLevel_timer t = d" "lastTickTime t = Some lastTick"
  shows "spec_m d = Some (timeMultiplier DISTORTED d)
    \<and> timeRemaining (fst (tick now endTimeNow achNow (t, s))) =
        max 0 (timeRemaining t - real_of_int (now - lastTick) / 1000 * timeMultiplier DISTORTED d)
    \<and> timeMultiplier DISTORTED 0 = 1 / 2
    \<and> timeMultiplier DISTORTED 30 = 1
    \<and> timeMultiplier DISTORTED 60 = 2
    \<and> timeMultiplier DISTORTED 80 = 3
    \<and> timeMultiplier DISTORTED 95 = - 1
    \<and> timeMultiplier DISTORTED 100 = - 1
    \<and> (d \<noteq> 95 \<longrightarrow> isCont (timeMultiplier DISTORTED) d)"
proof -
  have "d \<noteq> 95 \<longrightarrow> isCont (timeMultiplier DISTORTED) d"
    using isCont_below_95 [of d] isCont_above_95 [of d] by fastforce
  moreover have "timeRemaining (fst (tick now endTimeNow achNow (t, s))) =
        max 0 (timeRemaining t - real_of_int (now - lastTick) / 1000 * timeMultiplier DISTORTED d)"
    using tickTimer_remaining [OF assms(3) assms(5), of now] assms(4)
    by (simp add: fst_tick)
  moreover have "timeMultiplier DISTORTED 0 = 1 / 2" "timeMultiplier DISTORTED 30 = 1"
    "timeMultiplier DISTORTED 60 = 2" "timeMultiplier DISTORTED 80 = 3"
    "timeMultiplier DISTORTED 95 = - 1" "timeMultiplier DISTORTED 100 = - 1"
    by (simp_all add: timeMultiplier_def)
  ultimately show ?thesis
    using spec_m_refines [OF assms(1) assms(2)] by simp
qed

text \<open>
  C1 as stated fails at the boundary 95: the multiplier approaches 5 from the left and
  is \<open>-1\<close> at 95, so it is not continuous there.
\<close>

theorem timeMultiplier_jump_at_95:
  "\<not> isCont (timeMultiplier DISTORTED) 95"
  by (rule not_isCont_95)

text \<open>C1, amended, at level 30: ten seconds at multiplier 1 take 1500 to 1490.\<close>

theorem timeMultiplier_curve_witness:
  "spec_m 30 = Some 1
   \<and> timeRemaining (fst (tick 10000 10000 10000
        (\<lparr> timeRemaining = 1500, initialTime = 1500, timerState = DISTORTED,
           distortionLevel_timer = 30, lastTickTime = Some 0 \<rparr>, inSession))) = 1490
   \<and> isCont (timeMultiplier DISTORTED) 30"
  using timeMultiplier_curve [of 30 "\<lparr> timeRemaining = 1500, initialTime = 1500, timerState = DISTORTED,
           distortionLevel_timer = 30, lastTickTime = Some 0 \<rparr>" 0 10000 10000 10000 inSession]
  by simp

section \<open>Time running backward\<close>

text \<open>
  C2, amended. In the distorted state with distortion level at least 95, a tick after a
  non-negative real time, on a non-negative remaining time, adds exactly the elapsed
  real time to the remaining time, completes nothing and changes neither the initial
  time nor the store. There is no upper bound: only the lower bound 0 is enforced.
\<close>

theorem tick_reverse_adds_elapsed:
  assumes "timerState t = DISTORTED" and "95 \<le> distortionLevel_timer t"
    and "lastTickTime t = Some lastTick" and "lastTick \<le> now" and "0 \<le> timeRemaining t"
  shows "tick now endTimeNow achNow (t, s) =
     (t\<lparr> lastTickTime := Some now,
         timeRemaining := timeRemaining t + real_of_int (now - lastTick) / 1000 \<rparr>, s)"
proof -
  define el where "el = real_of_int (now - lastTick) / 1000"
  have e: "0 \<le> el"
    using assms(4) by (simp add: el_def)
  have m: "timeMultiplier DISTORTED (distortionLevel_timer t) = - 1"
    using assms(2) by (simp add: timeMultiplier_def)
  have nv: "max 0 (timeRemaining t - el * - 1) = timeRemaining t + el"
    using e assms(5) by simp
  have nc: "\<not> (timeRemaining t + el \<le> 0 \<and> 0 < timeRemaining t)"
    using e by linarith
  have "tickTimer now t =
     (t\<lparr> lastTickTime := Some now, timeRemaining := timeRemaining t + el \<rparr>, False)"
    unfolding tickTimer_def Let_def
    by (simp only: el_def [symmetric] assms(1) assms(3) m nv nc option.case simp_thms
        if_True if_False)
  then show ?thesis by (simp add: tick_def el_def)
qed

text \<open>
  C2 as stated fails: the remaining time is not clamped at the initial duration. From the
  initial timer, started, distorted and raised to level 100, ten seconds take 1500 to
  1510 while the initial time is 1500; at level 96, ten seconds take 1495 above 1500.
\<close>

theorem tick_reverse_counterexample:
  "timerState reversedTimer = DISTORTED
   \<and> distortionLevel_timer reversedTimer = 100
   \<and> timeRemaining (fst (tick 10000 10000 10000 (reversedTimer, inSession))) = 1510
   \<and> initialTime (fst (tick 10000 10000 10000 (reversedTimer, inSession))) = 1500
   \<and> \<not> timeRemaining (fst (tick 10000 10000 10000
          (\<lparr> timeRemaining = 1495, initialTime = 1500, timerState = DISTORTED,
             distortionLevel_timer = 96, lastTickTime = Some 0 \<rparr>, inSession))) \<le> 1500"
  by (simp add: reversedTimer_def initialTimer_def startTimer_def toggleTimeDistortion_def
      increaseDistortion_def tick_def tickTimer_def timeMultiplier_def Let_def eval_nat_numeral)

text \<open>C2, amended, on the same run.\<close>

theorem tick_reverse_adds_elapsed_witness:
  "timerState reversedTimer = DISTORTED \<and> 95 \<le> distortionLevel_timer reversedTimer
   \<and> lastTickTime reversedTimer = Some 0 \<and> 0 \<le> timeRemaining reversedTimer
   \<and> tick 10000 10000 10000 (reversedTimer, inSession) =
       (reversedTimer\<lparr> lastTickTime := Some 10000, timeRemaining := 1510 \<rparr>, inSession)"
proof -
  have h: "timerState reversedTimer = DISTORTED" "95 \<le> distortionLevel_timer reversedTimer"
    "lastTickTime reversedTimer = Some 0" "(0::int) \<le> 10000" "0 \<le> timeRemaining reversedTimer"
    and r: "timeRemaining reversedTimer = 1500"
    by (simp_all add: reversedTimer_def initialTimer_def startTimer_def toggleTimeDistortion_def
      increaseDistortion_def eval_nat_numeral)
  show ?thesis
    using h r tick_reverse_adds_elapsed [OF h, of 10000 10000 inSession] by simp
qed

section \<open>Completing a task\<close>

lemma map_if_unknown:
  "find (\<lambda>t. id_task t = i) xs = None \<Longrightarrow> map (\<lambda>t. if id_task t = i then f t else t) xs = xs"
  by (induction xs) (auto split: if_splits)

lemma filter_unknown:
  "find (\<lambda>t. id_task t = i) xs = None \<Longrightarrow> filter (\<lambda>t. id_task t \<noteq> i) xs = xs"
  by (induction xs) (auto split: if_splits)

lemma completeTask_total:
  "totalTasksCompleted (productivityStats (completeTask c a i s)) =
     totalTasksCompleted (productivityStats s) + 1"
  by (simp add: completeTask_def Let_def updateAchievement_def split: option.splits)

lemma completeTask_tasks:
  "tasks (completeTask c a i s) =
     map (\<lambda>task. if id_task task = i then task\<lparr> status := Completed, completedAt := Some c \<rparr> else task) (tasks s)"
  by (simp add: completeTask_def Let_def updateAchievement_def split: option.splits)

lemma completeTask_tasks_twice:
  "tasks (completeTask c2 a2 i (completeTask c1 a1 i s)) =
     map (\<lambda>task. if id_task task = i
                  then task\<lparr> status := Completed, completedAt := Some c2 \<rparr> else task)
         (tasks s)"
  by (simp add: completeTask_tasks)

lemma completeTask_stats:
  "productivityStats (completeTask c a i s) =
     (productivityStats s)\<lparr> totalTasksCompleted :=
        totalTasksCompleted (productivityStats s) + 1 \<rparr>"
  by (simp add: completeTask_def Let_def updateAchievement_def split: option.splits)

lemma completeTask_achievements_unknown:
  assumes "find (\<lambda>t. id_task t = i) (tasks s) = None"
  shows "achievements (completeTask c a i s) =
     (if 5 \<le> length (filter (\<lambda>t. status t = Completed) (tasks s))
         \<and> (case achievementById ''five-tasks-completed'' s of
               None \<Rightarrow> False | Some x \<Rightarrow> \<not> isUnlocked x)
      then achievements (updateAchievement a ''five-tasks-completed'' s)
      else achievements s)"
  by (simp add: completeTask_def Let_def achievementById_def map_if_unknown [OF assms]
      split: option.splits)

text \<open>
  C3, amended. Every call of \<^verbatim>\<open>completeTask\<close> increments \<^verbatim>\<open>totalTasksCompleted\<close> by
  exactly 1, whatever the status of the task: calling it twice on the same task
  increments the counter by 2. Each call sets the status of the tasks with the id to
  completed and \<^verbatim>\<open>completedAt\<close> to its own time, so the second call re-stamps
  \<^verbatim>\<open>completedAt\<close>.
\<close>

theorem completeTask_counts_every_call:
  "totalTasksCompleted (productivityStats (completeTask c1 a1 i s)) =
     totalTasksCompleted (productivityStats s) + 1
   \<and> totalTasksCompleted (productivityStats (completeTask c2 a2 i (completeTask c1 a1 i s))) =
     totalTasksCompleted (productivityStats s) + 2
   \<and> tasks (completeTask c1 a1 i s) =
       map (\<lambda>task. if id_task task = i
                    then task\<lparr> status := Completed, completedAt := Some c1 \<rparr> else task)
           (tasks s)
   \<and> tasks (completeTask c2 a2 i (completeTask c1 a1 i s)) =
       map (\<lambda>task. if id_task task = i
                    then task\<lparr> status := Completed, completedAt := Some c2 \<rparr> else task)
           (tasks s)"
  by (simp only: completeTask_total completeTask_tasks_twice completeTask_tasks [of c1 a1 i s])
     simp

text \<open>
  C3 as stated fails: on a store with one pending task, the first call completes the
  task at time 1000, and the second call moves \<^verbatim>\<open>completedAt\<close> to 2000 and increments
  the counter again.
\<close>

theorem completeTask_twice_counterexample:
  "map (\<lambda>t. (status t, completedAt t)) (tasks (completeTask 1000 1000 ''t1'' oneTask))
     = [(Completed, Some 1000)]
   \<and> map (\<lambda>t. (status t, completedAt t))
        (tasks (completeTask 2000 2000 ''t1'' (completeTask 1000 1000 ''t1'' oneTask)))
     = [(Completed, Some 2000)]
   \<and> totalTasksCompleted (productivityStats (completeTask 2000 2000 ''t1'' (completeTask 1000 1000 ''t1'' oneTask)))
     \<noteq> totalTasksCompleted (productivityStats oneTask) + 1"
  by (simp add: completeTask_total completeTask_tasks example_defs)

text \<open>
  C3, amended, on the store with one task: the counter goes from 0 to 1 to 2 and
  \<^verbatim>\<open>completedAt\<close> from undefined to 1000 to 2000.
\<close>

theorem completeTask_counts_every_call_witness:
  "totalTasksCompleted (productivityStats oneTask) = 0
   \<and> totalTasksCompleted (productivityStats (completeTask 1000 1000 ''t1'' oneTask)) = 1
   \<and> totalTasksCompleted (productivityStats
         (completeTask 2000 2000 ''t1'' (completeTask 1000 1000 ''t1'' oneTask))) = 2
   \<and> map completedAt (tasks oneTask) = [None]
   \<and> map completedAt (tasks (completeTask 1000 1000 ''t1'' oneTask)) = [Some 1000]
   \<and> map completedAt
        (tasks (completeTask 2000 2000 ''t1'' (completeTask 1000 1000 ''t1'' oneTask)))
      = [Some 2000]"
proof -
  have z: "totalTasksCompleted (productivityStats oneTask) = 0"
    and o: "map (\<lambda>t. (id_task t, completedAt t)) (tasks oneTask) = [(''t1'', None)]"
    by (simp_all add: example_defs)
  from o obtain t where t: "tasks oneTask = [t]" and i: "id_task t = ''t1''"
    and c: "completedAt t = None"
    by auto
  show ?thesis
    using z completeTask_counts_every_call [of 1000 1000 "''t1''" oneTask 2000 2000]
    by (simp add: t i c)
qed

section \<open>Operations on an unknown task id\<close>

text \<open>
  C9, amended. When no task of the store has the id, \<^verbatim>\<open>updateTask\<close>, \<^verbatim>\<open>deleteTask\<close> and
  the handler of \<^verbatim>\<open>procrastinate\<close> leave the whole store unchanged. \<^verbatim>\<open>completeTask\<close> leaves the tasks,
  the sessions, the current session and the focus state unchanged; of the statistics
  it changes only \<^verbatim>\<open>totalTasksCompleted\<close>, which it still increments by 1; and it leaves
  the achievements unchanged, except that it unlocks \<^verbatim>\<open>five-tasks-completed\<close> when at
  least five tasks of the store are completed and that achievement is still locked.
  No operation raises an error.
\<close>

theorem unknown_id_ops:
  assumes "taskById i s = None"
  shows "updateTask i taskUpdate s = s
    \<and> deleteTask i s = s
    \<and> handleProcrastinate achNow i s = s
    \<and> tasks (completeTask c a i s) = tasks s
    \<and> focusSessions (completeTask c a i s) = focusSessions s
    \<and> currentSession (completeTask c a i s) = currentSession s
    \<and> currentFocusState (completeTask c a i s) = currentFocusState s
    \<and> totalTasksCompleted (productivityStats (completeTask c a i s)) =
        totalTasksCompleted (productivityStats s) + 1
    \<and> productivityStats (completeTask c a i s) =
        (productivityStats s)\<lparr> totalTasksCompleted :=
           totalTasksCompleted (productivityStats s) + 1 \<rparr>
    \<and> achievements (completeTask c a i s) =
        (if 5 \<le> length (filter (\<lambda>t. status t = Completed) (tasks s))
            \<and> (case achievementById ''five-tasks-completed'' s of
                  None \<Rightarrow> False | Some x \<Rightarrow> \<not> isUnlocked x)
         then achievements (updateAchievement a ''five-tasks-completed'' s)
         else achievements s)"
proof -
  from assms have n: "find (\<lambda>t. id_task t = i) (tasks s) = None"
    by (simp add: taskById_def)
  have "updateTask i taskUpdate s = s"
    by (simp add: updateTask_def map_if_unknown [OF n])
  moreover have "deleteTask i s = s"
    by (simp add: deleteTask_def filter_unknown [OF n])
  moreover have "handleProcrastinate achNow i s = s"
    by (simp add: handleProcrastinate_def n)
  moreover have "tasks (completeTask c a i s) = tasks s"
    by (simp add: completeTask_tasks map_if_unknown [OF n])
  moreover have "focusSessions (completeTask c a i s) = focusSessions s"
    "currentSession (completeTask c a i s) = currentSession s"
    "currentFocusState (completeTask c a i s) = currentFocusState s"
    by (simp_all add: completeTask_def Let_def updateAchievement_def split: option.splits)
  moreover note completeTask_achievements_unknown [OF n, of c a]
  ultimately show ?thesis
    by (simp add: completeTask_stats)
qed

text \<open>
  C9 as stated fails for \<^verbatim>\<open>completeTask\<close>: on the initial store, which has no task, it
  changes the store, taking \<^verbatim>\<open>totalTasksCompleted\<close> from 0 to 1.
\<close>

theorem unknown_id_counterexample:
  "taskById ''ghost'' initialStore = None
   \<and> completeTask 1000 1000 ''ghost'' initialStore \<noteq> initialStore
   \<and> totalTasksCompleted (productivityStats (completeTask 1000 1000 ''ghost'' initialStore)) = 1
   \<and> totalTasksCompleted (productivityStats initialStore) = 0"
proof -
  have t: "totalTasksCompleted (productivityStats (completeTask 1000 1000 ''ghost'' initialStore)) = 1"
    "totalTasksCompleted (productivityStats initialStore) = 0"
    by (simp_all add: completeTask_total) (simp_all add: initialStore_def)
  then have "completeTask 1000 1000 ''ghost'' initialStore \<noteq> initialStore"
    by auto
  with t show ?thesis
    by (simp add: taskById_def) (simp add: initialStore_def)
qed

text \<open>C9, amended, on the store with one task and an id that no task has.\<close>

theorem unknown_id_ops_witness:
  "taskById ''ghost'' oneTask = None
   \<and> updateTask ''ghost'' (emptyPatch\<lparr> p_title := Some ''x'' \<rparr>) oneTask = oneTask
   \<and> deleteTask ''ghost'' oneTask = oneTask
   \<and> handleProcrastinate 5 ''ghost'' oneTask = oneTask
   \<and> tasks (completeTask 5 5 ''ghost'' oneTask) = tasks oneTask
   \<and> totalTasksCompleted (productivityStats (completeTask 5 5 ''ghost'' oneTask)) = 1
   \<and> productivityStats (completeTask 5 5 ''ghost'' oneTask) =
       (productivityStats oneTask)\<lparr> totalTasksCompleted := 1 \<rparr>
   \<and> achievements (completeTask 5 5 ''ghost'' oneTask) = achievements oneTask"
proof -
  have h: "taskById ''ghost'' oneTask = None"
    by (simp add: taskById_def example_defs)
  have z: "totalTasksCompleted (productivityStats oneTask) = 0"
    and f: "length (filter (\<lambda>t. status t = Completed) (tasks oneTask)) = 0"
    by (simp_all add: example_defs)
  show ?thesis
    using h z f unknown_id_ops [OF h, of "emptyPatch\<lparr> p_title := Some ''x'' \<rparr>" 5 5 5]
    by simp
qed

section \<open>Procrastinating\<close>

text \<open>
  One call on a task below level 80 raises the level by 20 and changes nothing else of
  the task; from level 80 on the call is \<^verbatim>\<open>makeTaskRunAway\<close> and leaves the level.
\<close>

lemma find_map_if:
  assumes "find (\<lambda>t. id_task t = i) xs = Some t" and "\<And>x. id_task (f x) = id_task x"
  shows "find (\<lambda>t. id_task t = i) (map (\<lambda>x. if id_task x = i then f x else x) xs) = Some (f t)"
  using assms by (induction xs) (auto split: if_splits)

lemma handleProcrastinate_step:
  assumes "taskById i s = Some t"
  shows "(procrastinationLevel t + 20 < 100 \<longrightarrow>
            handleProcrastinate n i s =
              updateTask i (emptyPatch\<lparr> p_procrastinationLevel := Some (procrastinationLevel t + 20) \<rparr>) s
            \<and> taskById i (handleProcrastinate n i s) =
                Some (t\<lparr> procrastinationLevel := procrastinationLevel t + 20 \<rparr>)
            \<and> achievements (handleProcrastinate n i s) = achievements s)
       \<and> (100 \<le> procrastinationLevel t + 20 \<longrightarrow>
            handleProcrastinate n i s = makeTaskRunAway n i s
            \<and> taskById i (handleProcrastinate n i s) = Some (t\<lparr> status := RunningAway \<rparr>))"
proof -
  from assms have f: "find (\<lambda>t. id_task t = i) (tasks s) = Some t"
    by (simp add: taskById_def)
  define p where "p = emptyPatch\<lparr> p_procrastinationLevel := Some (procrastinationLevel t + 20) \<rparr>"
  have sp: "spread t p = t\<lparr> procrastinationLevel := procrastinationLevel t + 20 \<rparr>"
    by (simp add: p_def spread_def override_def emptyPatch_def)
  have "find (\<lambda>t. id_task t = i)
             (map (\<lambda>x. if id_task x = i then spread x p else x) (tasks s)) = Some (spread t p)"
    by (rule find_map_if [OF f]) (simp add: p_def spread_def override_def emptyPatch_def)
  then have a: "taskById i (updateTask i p s) = Some (t\<lparr> procrastinationLevel := procrastinationLevel t + 20 \<rparr>)"
    by (simp add: taskById_def updateTask_def sp)
  have "find (\<lambda>t. id_task t = i)
             (map (\<lambda>x. if id_task x = i then x\<lparr> status := RunningAway \<rparr> else x) (tasks s))
           = Some (t\<lparr> status := RunningAway \<rparr>)"
    by (rule find_map_if [OF f]) simp
  then have b: "taskById i (makeTaskRunAway n i s) = Some (t\<lparr> status := RunningAway \<rparr>)"
    by (simp add: taskById_def makeTaskRunAway_def updateAchievement_def)
  have c: "procrastinationLevel t + 20 < 100 \<Longrightarrow> handleProcrastinate n i s = updateTask i p s"
    and d: "100 \<le> procrastinationLevel t + 20 \<Longrightarrow> handleProcrastinate n i s = makeTaskRunAway n i s"
    by (simp_all add: handleProcrastinate_def f Let_def p_def)
  have e: "achievements (updateTask i p s) = achievements s"
    by (simp add: updateTask_def)
  show ?thesis
    using a b c d e unfolding p_def by simp
qed

lemma handleProcrastinate_step_witness:
  "map_option procrastinationLevel (taskById ''t1'' oneTask) = Some 0
   \<and> map_option procrastinationLevel (taskById ''t1'' (handleProcrastinate 1 ''t1'' oneTask)) = Some 20"
proof -
  obtain t where t: "taskById ''t1'' oneTask = Some t" and l: "procrastinationLevel t = 0"
    by (simp add: example_defs op_defs)
  have "procrastinationLevel t + 20 < 100"
    using l by simp
  with handleProcrastinate_step [OF t, of 1]
  have "taskById ''t1'' (handleProcrastinate 1 ''t1'' oneTask) =
          Some (t\<lparr> procrastinationLevel := procrastinationLevel t + 20 \<rparr>)"
    by blast
  then show ?thesis
    using t l by simp
qed















section \<open>Unlocking achievements\<close>

text \<open>
  Under every run of operations the achievements keep their ids and order, and an
  unlocked achievement stays unlocked.
\<close>

lemma staysUnlocked_refl: "staysUnlocked xs xs"
  by (simp add: staysUnlocked_def list_all2_same)

lemma staysUnlocked_trans:
  assumes "staysUnlocked xs ys" and "staysUnlocked ys zs"
  shows "staysUnlocked xs zs"
proof -
  have a: "list_all2 (\<lambda>a b. isUnlocked a \<longrightarrow> isUnlocked b) xs ys"
    and b: "list_all2 (\<lambda>a b. isUnlocked a \<longrightarrow> isUnlocked b) ys zs"
    using assms by (simp_all add: staysUnlocked_def)
  from a b have "list_all2 (\<lambda>a b. isUnlocked a \<longrightarrow> isUnlocked b) xs zs"
    by (rule list_all2_trans [rotated]) simp
  with assms show ?thesis by (simp add: staysUnlocked_def)
qed

lemma staysUnlocked_updateAchievement:
  "staysUnlocked (achievements s) (achievements (updateAchievement n a s))"
  by (simp add: staysUnlocked_def updateAchievement_def list_all2_map2 list_all2_same
      comp_def)

lemma staysUnlocked_applyOp: "staysUnlocked (achievements s) (achievements (applyOp op s))"
proof (cases op)
  case (AddTask x1 x2 x3 x4 x5)
  have "achievements (applyOp op s) = achievements s
      \<or> achievements (applyOp op s) = achievements (updateAchievement x4 ''first-task'' s)"
    by (simp add: AddTask addTask_def Let_def updateAchievement_def split: option.splits)
  then show ?thesis
    using staysUnlocked_updateAchievement [of s x4 "''first-task''"] by (auto simp: staysUnlocked_refl)
next
  case (CompleteTask x1 x2 x3)
  have "achievements (applyOp op s) = achievements s
      \<or> achievements (applyOp op s) = achievements (updateAchievement x2 ''five-tasks-completed'' s)"
    by (simp add: CompleteTask completeTask_def Let_def updateAchievement_def split: option.splits)
  then show ?thesis
    using staysUnlocked_updateAchievement [of s x2 "''five-tasks-completed''"] by (auto simp: staysUnlocked_refl)
next
  case (MakeTaskRunAway x1 x2)
  have "achievements (applyOp op s) = achievements (updateAchievement x1 ''procrastination-master'' s)"
    by (simp add: MakeTaskRunAway makeTaskRunAway_def updateAchievement_def)
  then show ?thesis
    using staysUnlocked_updateAchievement [of s x1 "''procrastination-master''"] by simp
next
  case (Procrastinate x1 x2)
  have "achievements (applyOp op s) = achievements s
      \<or> achievements (applyOp op s) = achievements (updateAchievement x1 ''procrastination-master'' s)"
    by (simp add: Procrastinate handleProcrastinate_def makeTaskRunAway_def updateTask_def Let_def
        updateAchievement_def split: option.splits)
  then show ?thesis
    using staysUnlocked_updateAchievement [of s x1 "''procrastination-master''"] by (auto simp: staysUnlocked_refl)
next
  case (EndFocusSession x1 x2)
  have "achievements (applyOp op s) = achievements s
      \<or> achievements (applyOp op s) = achievements (updateAchievement x2 ''time-bender'' s)"
    by (simp add: EndFocusSession endFocusSession_def updateTask_def Let_def
        updateAchievement_def split: option.splits)
  then show ?thesis
    using staysUnlocked_updateAchievement [of s x2 "''time-bender''"] by (auto simp: staysUnlocked_refl)
next
  case (UpdateAchievement x1 x2)
  then show ?thesis by (simp add: staysUnlocked_updateAchievement)
qed (simp_all add: staysUnlocked_refl updateTask_def deleteTask_def startFocusSession_def
       setDistortionLevel_def setFocusState_def Let_def split: option.splits)

lemma isUnlocked_never_reverts:
  "staysUnlocked (achievements s) (achievements (run ops s))"
proof (induction ops arbitrary: s)
  case Nil
  show ?case by (simp add: staysUnlocked_refl)
next
  case (Cons op ops)
  show ?case
    using staysUnlocked_applyOp [of s op] Cons [of "applyOp op s"]
    by (auto intro: staysUnlocked_trans)
qed

lemma isUnlocked_never_reverts_witness:
  "map isUnlocked (achievements fled) = [True, False, True, False, False]
   \<and> staysUnlocked (achievements fled)
       (achievements (run [Procrastinate 6 ''t1'', DeleteTask ''t1'', CompleteTask 7 7 ''t1''] fled))
   \<and> map isUnlocked
       (achievements (run [Procrastinate 6 ''t1'', DeleteTask ''t1'', CompleteTask 7 7 ''t1''] fled))
      = [True, False, True, False, False]"
  using isUnlocked_never_reverts [of fled "[Procrastinate 6 ''t1'', DeleteTask ''t1'', CompleteTask 7 7 ''t1'']"]
  by (simp add: fled_def deleteTask_def completeTask_def example_defs op_defs)

text \<open>
  C5, evaluated. Unlocking is not idempotent: when a second task runs away, or
  \<^verbatim>\<open>updateAchievement\<close> is called again, \<^verbatim>\<open>unlockedAt\<close> of the unlocked achievement is
  replaced by the time of the second call (1000 becomes 2000). \<^verbatim>\<open>addTask\<close> checks
  \<^verbatim>\<open>isUnlocked\<close> before it unlocks, so a second task leaves \<^verbatim>\<open>unlockedAt\<close> of
  \<^verbatim>\<open>first-task\<close> at the time of the first.
\<close>

theorem unlock_twice_restamps:
  "map_option unlockedAt
     (achievementById ''procrastination-master'' (makeTaskRunAway 1000 ''t1'' twoTasks))
     = Some (Some 1000)
   \<and> map_option unlockedAt
     (achievementById ''procrastination-master''
        (makeTaskRunAway 2000 ''t2'' (makeTaskRunAway 1000 ''t1'' twoTasks)))
     = Some (Some 2000)
   \<and> map_option unlockedAt
     (achievementById ''time-bender''
        (updateAchievement 2000 ''time-bender'' (updateAchievement 1000 ''time-bender'' initialStore)))
     = Some (Some 2000)
   \<and> map_option unlockedAt
     (achievementById ''first-task''
        (addTask ''t2'' 2000 (0, 0, 0) 2000
           \<lparr> d_title = ''read'', d_description = ''paper'', d_importance = 2,
             d_deadline = None, d_completedAt = None, d_lastWorkedOn = None \<rparr> oneTask))
     = Some (Some 0)"
  by (simp add: example_defs op_defs)

section \<open>Terminal statuses\<close>

lemma terminal_map:
  assumes "list_all (\<lambda>t. id_task t = i \<longrightarrow> terminal (status t)) xs"
    and "\<And>t. id_task (f t) = id_task t"
    and "\<And>t. terminal (status t) \<Longrightarrow> terminal (status (f t))"
  shows "list_all (\<lambda>t. id_task t = i \<longrightarrow> terminal (status t)) (map (\<lambda>t. if c t then f t else t) xs)"
  using assms by (induction xs) auto

lemma tasks_updateAchievement [simp]: "tasks (updateAchievement n a s) = tasks s"
  by (simp add: updateAchievement_def)

lemma terminalAt_updateTask:
  assumes "terminalAt i s" "p_status p = None" "p_id p = None"
  shows "terminalAt i (updateTask j p s)"
proof -
  have "list_all (\<lambda>t. id_task t = i \<longrightarrow> terminal (status t))
          (map (\<lambda>t. if id_task t = j then spread t p else t) (tasks s))"
    using assms by (intro terminal_map) (simp_all add: terminalAt_def spread_def override_def)
  then show ?thesis by (simp add: terminalAt_def updateTask_def)
qed

lemma terminalAt_completeTask:
  assumes "terminalAt i s"
  shows "terminalAt i (completeTask c a j s)"
proof -
  have "list_all (\<lambda>t. id_task t = i \<longrightarrow> terminal (status t))
          (map (\<lambda>t. if id_task t = j then t\<lparr> status := Completed, completedAt := Some c \<rparr> else t) (tasks s))"
    using assms by (intro terminal_map) (simp_all add: terminalAt_def terminal_def)
  moreover have "tasks (completeTask c a j s) =
      map (\<lambda>t. if id_task t = j then t\<lparr> status := Completed, completedAt := Some c \<rparr> else t) (tasks s)"
    by (simp add: completeTask_def Let_def updateAchievement_def split: option.splits)
  ultimately show ?thesis by (simp add: terminalAt_def)
qed

lemma terminalAt_makeTaskRunAway:
  assumes "terminalAt i s"
  shows "terminalAt i (makeTaskRunAway a j s)"
proof -
  have "list_all (\<lambda>t. id_task t = i \<longrightarrow> terminal (status t))
          (map (\<lambda>t. if id_task t = j then t\<lparr> status := RunningAway \<rparr> else t) (tasks s))"
    using assms by (intro terminal_map) (simp_all add: terminalAt_def terminal_def)
  then show ?thesis by (simp add: terminalAt_def makeTaskRunAway_def)
qed

lemma terminalAt_handleProcrastinate:
  assumes "terminalAt i s"
  shows "terminalAt i (handleProcrastinate a j s)"
  using assms
  by (auto simp: handleProcrastinate_def Let_def emptyPatch_def
      intro!: terminalAt_makeTaskRunAway terminalAt_updateTask split: option.splits)

lemma terminalAt_endFocusSession:
  assumes "terminalAt i s"
  shows "terminalAt i (endFocusSession e a s)"
  using assms
  by (auto simp: endFocusSession_def Let_def emptyPatch_def terminalAt_def
      intro!: terminalAt_updateTask [unfolded terminalAt_def] split: option.splits)

lemma terminalAt_addTask:
  assumes "terminalAt i s" "newId \<noteq> i"
  shows "terminalAt i (addTask newId now pos achNow taskData s)"
proof -
  have "\<exists>t. id_task t = newId \<and> tasks (addTask newId now pos achNow taskData s) = tasks s @ [t]"
    by (simp add: addTask_def Let_def split: option.splits)
  with assms show ?thesis by (auto simp: terminalAt_def)
qed

lemma terminalAt_deleteTask:
  "terminalAt i s \<Longrightarrow> terminalAt i (deleteTask j s)"
  by (simp add: terminalAt_def deleteTask_def list_all_iff)

lemma terminalAt_applyOp:
  "terminalAt i s \<Longrightarrow> keepsStatus i op \<Longrightarrow> terminalAt i (applyOp op s)"
proof (cases op)
  case (StartFocusSession x1 x2 x3)
  then show "terminalAt i s \<Longrightarrow> ?thesis" by (simp add: startFocusSession_def Let_def terminalAt_def)
next
  case (SetDistortionLevel x)
  then show "terminalAt i s \<Longrightarrow> ?thesis" by (simp add: setDistortionLevel_def terminalAt_def split: option.splits)
next
  case (SetFocusState x)
  then show "terminalAt i s \<Longrightarrow> ?thesis" by (simp add: setFocusState_def terminalAt_def)
next
  case (UpdateAchievement x1 x2)
  then show "terminalAt i s \<Longrightarrow> ?thesis" by (simp add: terminalAt_def)
qed (simp_all add: terminalAt_addTask terminalAt_updateTask terminalAt_deleteTask
      terminalAt_completeTask terminalAt_makeTaskRunAway terminalAt_handleProcrastinate
      terminalAt_endFocusSession)

text \<open>
  C6, amended. When every task with the id \<open>i\<close> is completed or running away, it stays
  so under every run of store operations in which no \<^verbatim>\<open>updateTask\<close> patch has the key
  \<^verbatim>\<open>status\<close> or \<^verbatim>\<open>id\<close> and no \<^verbatim>\<open>addTask\<close> creates the id \<open>i\<close>: \<^verbatim>\<open>completeTask\<close>,
  \<^verbatim>\<open>makeTaskRunAway\<close>, \<^verbatim>\<open>procrastinate\<close>, \<^verbatim>\<open>deleteTask\<close>, the session operations and
  the other updates never move a task back to pending or in-progress.
\<close>

theorem terminal_status_kept:
  assumes "terminalAt i s" and "list_all (keepsStatus i) ops"
  shows "terminalAt i (run ops s)"
  using assms by (induction ops arbitrary: s) (simp_all add: terminalAt_applyOp)

text \<open>
  C6 as stated fails for \<^verbatim>\<open>updateTask\<close>: a patch with \<^verbatim>\<open>status: 'pending'\<close> moves a
  completed task back to pending.
\<close>

theorem terminal_status_counterexample:
  "map status (tasks doneTask) = [Completed]
   \<and> terminalAt ''t1'' doneTask
   \<and> map status (tasks (updateTask ''t1'' (emptyPatch\<lparr> p_status := Some Pending \<rparr>) doneTask)) = [Pending]
   \<and> \<not> terminalAt ''t1'' (updateTask ''t1'' (emptyPatch\<lparr> p_status := Some Pending \<rparr>) doneTask)"
  by (simp add: doneTask_def completeTask_def terminalAt_def terminal_def example_defs op_defs)

text \<open>
  C6, amended, on the completed task: edited, procrastinated and worked on in a focus
  session, it stays completed.
\<close>

theorem terminal_status_kept_witness:
  "terminalAt ''t1'' doneTask
   \<and> list_all (keepsStatus ''t1'')
        [UpdateTask ''t1'' (emptyPatch\<lparr> p_title := Some ''rewrite'' \<rparr>), Procrastinate 2000 ''t1'',
         StartFocusSession ''s1'' 3000 ''t1'', EndFocusSession 4000 4000]
   \<and> map status (tasks (run
        [UpdateTask ''t1'' (emptyPatch\<lparr> p_title := Some ''rewrite'' \<rparr>), Procrastinate 2000 ''t1'',
         StartFocusSession ''s1'' 3000 ''t1'', EndFocusSession 4000 4000] doneTask)) = [Completed]
   \<and> terminalAt ''t1'' (run
        [UpdateTask ''t1'' (emptyPatch\<lparr> p_title := Some ''rewrite'' \<rparr>), Procrastinate 2000 ''t1'',
         StartFocusSession ''s1'' 3000 ''t1'', EndFocusSession 4000 4000] doneTask)"
proof -
  have a: "terminalAt ''t1'' doneTask"
    by (simp add: doneTask_def completeTask_def terminalAt_def terminal_def example_defs op_defs)
  have b: "list_all (keepsStatus ''t1'')
        [UpdateTask ''t1'' (emptyPatch\<lparr> p_title := Some ''rewrite'' \<rparr>), Procrastinate 2000 ''t1'',
         StartFocusSession ''s1'' 3000 ''t1'', EndFocusSession 4000 4000]"
    by (simp add: emptyPatch_def)
  have c: "map status (tasks (run
        [UpdateTask ''t1'' (emptyPatch\<lparr> p_title := Some ''rewrite'' \<rparr>), Procrastinate 2000 ''t1'',
         StartFocusSession ''s1'' 3000 ''t1'', EndFocusSession 4000 4000] doneTask)) = [Completed]"
    by (simp add: doneTask_def completeTask_def startFocusSession_def endFocusSession_def
        example_defs op_defs)
  show ?thesis
    using a b c terminal_status_kept [OF a b] by simp
qed

section \<open>Starting a focus session\<close>

text \<open>
  C7, amended. \<^verbatim>\<open>startFocusSession\<close> always opens a new session for the task, with
  \<^verbatim>\<open>startTime\<close> now, duration 0 and distortion level 0, and sets the focus state to
  focus, whether or not a session is active; an active session is replaced and is not
  added to the closed sessions. The store holds one current session at most.
\<close>

theorem startFocusSession_replaces:
  "currentSession (startFocusSession newId now tid s) =
     Some \<lparr> id_session = newId, taskId = tid, startTime = now, endTime = None,
            duration = 0, distortionLevel = 0 \<rparr>
   \<and> currentFocusState (startFocusSession newId now tid s) = Focus
   \<and> focusSessions (startFocusSession newId now tid s) = focusSessions s
   \<and> tasks (startFocusSession newId now tid s) = tasks s
   \<and> productivityStats (startFocusSession newId now tid s) = productivityStats s
   \<and> achievements (startFocusSession newId now tid s) = achievements s"
  by (simp add: startFocusSession_def Let_def)

text \<open>
  C7 as stated fails: with session \<^verbatim>\<open>s1\<close> active, starting again is not a no-op; the
  current session becomes \<^verbatim>\<open>s2\<close> and \<^verbatim>\<open>s1\<close> is in no list.
\<close>

theorem startFocusSession_counterexample:
  "map_option id_session (currentSession inSession) = Some ''s1''
   \<and> map_option id_session (currentSession (startFocusSession ''s2'' 5000 ''t1'' inSession)) = Some ''s2''
   \<and> startFocusSession ''s2'' 5000 ''t1'' inSession \<noteq> inSession
   \<and> focusSessions (startFocusSession ''s2'' 5000 ''t1'' inSession) = []"
proof -
  have a: "map_option id_session (currentSession inSession) = Some ''s1''"
    and b: "map_option id_session (currentSession (startFocusSession ''s2'' 5000 ''t1'' inSession)) = Some ''s2''"
    and c: "focusSessions (startFocusSession ''s2'' 5000 ''t1'' inSession) = []"
    by (simp_all add: inSession_def startFocusSession_def example_defs)
  from a b have "startFocusSession ''s2'' 5000 ''t1'' inSession \<noteq> inSession"
    by auto
  with a b c show ?thesis by simp
qed

text \<open>C7, amended, on the store with the active session.\<close>

theorem startFocusSession_replaces_witness:
  "currentSession (startFocusSession ''s2'' 5000 ''t1'' inSession) =
     Some \<lparr> id_session = ''s2'', taskId = ''t1'', startTime = 5000, endTime = None,
            duration = 0, distortionLevel = 0 \<rparr>
   \<and> currentFocusState (startFocusSession ''s2'' 5000 ''t1'' inSession) = Focus"
  using startFocusSession_replaces [of "''s2''" 5000 "''t1''" inSession]
  by simp

section \<open>Streaks\<close>

lemma streaks_applyOp: "streaks (applyOp op s) = streaks s"
  by (cases op)
    (simp_all add: streaks_def addTask_def updateTask_def deleteTask_def completeTask_def
      makeTaskRunAway_def handleProcrastinate_def startFocusSession_def endFocusSession_def
      setDistortionLevel_def setFocusState_def updateAchievement_def Let_def
      split: option.splits)

lemma streaks_run: "streaks (run ops s) = streaks s"
  by (induction ops arbitrary: s) (simp_all add: streaks_applyOp)

text \<open>
  C8, amended. Closing a focus session leaves \<^verbatim>\<open>currentStreak\<close>, \<^verbatim>\<open>longestStreak\<close> and
  \<^verbatim>\<open>lastActiveDay\<close> unchanged, and so does every run of store operations: from the
  initial store they stay 0, 0 and undefined.
\<close>

theorem streaks_never_change:
  "streaks (endFocusSession endTimeNow achNow s) = streaks s
   \<and> streaks (run ops s) = streaks s
   \<and> streaks (run ops initialStore) = (0, 0, None)"
  using streaks_applyOp [of "EndFocusSession endTimeNow achNow" s]
  by (simp add: streaks_run) (simp add: streaks_def initialStore_def)

text \<open>
  C8 as stated fails: the first session ever closed leaves \<^verbatim>\<open>currentStreak\<close> at 0,
  where the specification's rule gives 1 (no prior activity).
\<close>

theorem streaks_counterexample:
  "currentSession inSession \<noteq> None
   \<and> length (focusSessions (endFocusSession 60000 60000 inSession)) = 1
   \<and> currentStreak (productivityStats (endFocusSession 60000 60000 inSession)) = 0
   \<and> spec_currentStreak (lastActiveDay (productivityStats inSession)) 60000
        (currentStreak (productivityStats inSession)) = 1
   \<and> currentStreak (productivityStats (endFocusSession 60000 60000 inSession)) \<noteq>
       spec_currentStreak (lastActiveDay (productivityStats inSession)) 60000
        (currentStreak (productivityStats inSession))"
  by (simp add: inSession_def startFocusSession_def endFocusSession_def spec_currentStreak_def
      example_defs op_defs)

text \<open>C8, amended, on the store with the active session.\<close>

theorem streaks_never_change_witness:
  "streaks (endFocusSession 60000 60000 inSession) = streaks inSession
   \<and> streaks (run [EndFocusSession 60000 60000, CompleteTask 70000 70000 ''t1''] inSession) = streaks inSession
   \<and> streaks (run [EndFocusSession 60000 60000, CompleteTask 70000 70000 ''t1''] initialStore) = (0, 0, None)"
  using streaks_never_change [of 60000 60000 inSession "[EndFocusSession 60000 60000, CompleteTask 70000 70000 ''t1'']"]
  by simp

section \<open>Setting the distortion level without a session\<close>

text \<open>
  C10. When no focus session is active (\<^verbatim>\<open>currentSession\<close> is undefined),
  \<^verbatim>\<open>setDistortionLevel(level)\<close> leaves the whole store unchanged for every level:
  no distortion level is recorded and \<^verbatim>\<open>currentFocusState\<close> keeps its value.
\<close>

theorem setDistortionLevel_no_session:
  "currentSession state = None \<Longrightarrow> setDistortionLevel level state = state"
  by (simp add: setDistortionLevel_def)

theorem setDistortionLevel_no_session_witness:
  "currentSession initialStore = None
   \<and> setDistortionLevel 96 initialStore = initialStore
   \<and> currentFocusState (setDistortionLevel 96 initialStore) = Idle"
  using setDistortionLevel_no_session [of initialStore 96]
  by (simp add: initialStore_def)

end
